theory Spec2Isabelle
  imports Complex_Main
begin

section \<open>Python string operations used by omoa.py\<close>

text \<open>
  Strings are character lists. Only the operations the source applies are modelled:
  startswith, the substring test (in), split with maxsplit 1, strip, join, lower
  and the decimal rendering of a non-negative integer inside an f-string.
\<close>

fun startswith :: "string \<Rightarrow> string \<Rightarrow> bool" where
  "startswith s [] = True"
| "startswith [] (p # ps) = False"
| "startswith (c # cs) (p # ps) = (c = p \<and> startswith cs ps)"

text \<open>The first occurrence of a separator: the text before it and the text after it.\<close>

fun find_sub :: "string \<Rightarrow> string \<Rightarrow> (string \<times> string) option" where
  "find_sub [] sep = (if sep = [] then Some ([], []) else None)"
| "find_sub (c # cs) sep =
     (if startswith (c # cs) sep then Some ([], drop (length sep) (c # cs))
      else (case find_sub cs sep of
              None \<Rightarrow> None
            | Some (a, b) \<Rightarrow> Some (c # a, b)))"

text \<open>Python: sub in s.\<close>

definition contains :: "string \<Rightarrow> string \<Rightarrow> bool" where
  "contains s sub = (find_sub s sub \<noteq> None)"

text \<open>Python: s.split(sep, 1), for a non-empty separator.\<close>

definition split1 :: "string \<Rightarrow> string \<Rightarrow> string list" where
  "split1 s sep = (case find_sub s sep of None \<Rightarrow> [s] | Some (a, b) \<Rightarrow> [a, b])"

text \<open>
  Python: c.isspace(), on the code points below 256: tab to carriage return,
  the four separators 28 to 31, the space, NEL (133) and the no-break space (160).
\<close>

definition isspace :: "char \<Rightarrow> bool" where
  "isspace c =
     (let n = (of_char c :: nat)
      in (9 \<le> n \<and> n \<le> 13) \<or> (28 \<le> n \<and> n \<le> 32) \<or> n = 133 \<or> n = 160)"

definition strip :: "string \<Rightarrow> string" where
  "strip s = rev (dropWhile isspace (rev (dropWhile isspace s)))"

fun join :: "string \<Rightarrow> string list \<Rightarrow> string" where
  "join sep [] = []"
| "join sep [x] = x"
| "join sep (x # y # ys) = x @ sep @ join sep (y # ys)"




fun show_nat :: "nat \<Rightarrow> string" where
  "show_nat n =
     (if n < 10 then [char_of (48 + n)]
      else show_nat (n div 10) @ [char_of (48 + n mod 10)])"

declare show_nat.simps [simp del]

text \<open>Python: str(i) for an integer.\<close>

definition show_int :: "int \<Rightarrow> string" where
  "show_int i = (if i < 0 then CHR ''-'' # show_nat (nat (- i)) else show_nat (nat i))"

definition squote :: string where
  "squote = [CHR 0x27]"


section \<open>Data model\<close>

text \<open>The values json.loads returns. A float is kept as mantissa and binary exponent.\<close>

datatype json =
    JNull
  | JBool bool
  | JInt int
  | JFloat int int
  | JString string
  | JArray "json list"
  | JObject "(string \<times> json) list"

text \<open>
  The exceptions that the source raises or that its handlers name, and the exception
  with which the index refuses a document that is not a string.
\<close>

datatype exn =
    TypeError string
  | JSONDecodeError
  | ValueError string
  | ValidationError
  | AddDocumentError

text \<open>class OllamaAgent (lines 114 to 118).\<close>

record OllamaAgent =
  model :: string
  name :: string
  system_prompt :: string

text \<open>A chat message: the dictionary with the keys role and content.\<close>

record message =
  role :: string
  content :: string

text \<open>The roles of the event memory (Roles.user, Roles.assistant).\<close>

datatype Roles = Roles_system | Roles_user | Roles_assistant | Roles_tool

text \<open>class QueryItem and class QueryExtension (lines 143 to 148).\<close>

record QueryItem =
  query :: string
  type :: string

record QueryExtension =
  queries :: "QueryItem list"

text \<open>
  The core memory document: sections in insertion order, each a dictionary from
  string keys to string values, also in insertion order.
\<close>

type_synonym core_doc = "(string \<times> (string \<times> string) list) list"

text \<open>
  The calls that leave the process, in the order they are made: a completion call
  (model, message list and, when given, temperature and max_tokens), a search issued
  by search_web, and a retrieval from the similarity index with the requested k.
\<close>

datatype event =
    Completion string "message list" "(real \<times> int) option"
  | WebSearch string
  | Retrieve string int

text \<open>
  The external collaborators, as parameters. A completion and a search may answer
  differently each time, so they see the calls made so far. The completion function
  returns a string or Python's None. The similarity index answers from its contents,
  the query and k. The JSON parser returns None for JSONDecodeError, and the
  validator QueryExtension.model_validate returns None for ValidationError. Clearing
  the index returns None when it succeeds and the text of the exception when it
  raises.
\<close>

record env =
  generate_with_references ::
    "event list \<Rightarrow> string \<Rightarrow> message list \<Rightarrow> (real \<times> int) option \<Rightarrow> string option"
  ddgs_text :: "event list \<Rightarrow> string \<Rightarrow> string list"
  retrieve_documents :: "string option list \<Rightarrow> string \<Rightarrow> int \<Rightarrow> string list"
  json_loads :: "string \<Rightarrow> json option"
  json_dumps :: "json \<Rightarrow> string"
  model_validate :: "(string \<times> json) list \<Rightarrow> QueryExtension option"
  json_dumps_indent :: "core_doc \<Rightarrow> string"
  split_text :: "string \<Rightarrow> string list"
  read_txt :: "string \<Rightarrow> string + string"
  pdf_pages :: "string \<Rightarrow> string + string list"
  csv_rows :: "string \<Rightarrow> string + string list list"
  clear_documents :: "string option list \<Rightarrow> string option"

text \<open>
  class OllamaMixtureOfAgents: the fields that the methods below read or write.
  The field rag holds the documents of the similarity index in insertion order
  (every entry is Some text: the index takes strings only),
  agent_event_memory the event log, core_memory_file the document stored in
  MemoryAssistant/core_memory.json and agent_core_memory the document held by the
  AgentCoreMemory object.
\<close>

record OllamaMixtureOfAgents =
  reference_agents :: "OllamaAgent list"
  final_agent :: OllamaAgent
  temperature :: real
  max_tokens :: int
  web_search_enabled :: bool
  core_memory :: core_doc
  agent_core_memory :: core_doc
  core_memory_file :: core_doc
  agent_event_memory :: "(Roles \<times> string option) list"
  rag :: "string option list"
  document_count :: int


section \<open>Web augmentation\<close>

text \<open>
  get_website_content_from_url (lines 72 to 100). The first statement of the try
  block calls use_config, a name that the module neither imports nor defines (lines
  1 to 23 import fetch_url and extract only). The call raises NameError, the handler
  of line 99 catches it, and the function returns the notice of line 100 for
  every URL, before any fetch.
\<close>

definition name_error_use_config :: string where
  "name_error_use_config = ''name 'use_config' is not defined''"

definition get_website_content_from_url :: "string \<Rightarrow> string" where
  "get_website_content_from_url url =
     ''An error occurred while processing '' @ url @ '': '' @ name_error_use_config"

definition success_marker :: string where
  "success_marker = ''Based on the following results:''"

definition no_results_sentinel :: string where
  "no_results_sentinel = ''No relevant information found from the web search.''"

text \<open>The loop of search_web over the result URLs (lines 105 to 107).\<close>

definition search_web_loop :: "string list \<Rightarrow> string" where
  "search_web_loop results =
     foldl (\<lambda>result_string href.
              result_string @ get_website_content_from_url href @ ''\<newline>\<newline>'')
           [] results"

text \<open>search_web (lines 102 to 112).\<close>

definition search_web :: "env \<Rightarrow> string \<Rightarrow> event list \<Rightarrow> string \<times> event list" where
  "search_web e search_query tr =
     (let results = ddgs_text e tr search_query;
          tr1 = tr @ [WebSearch search_query];
          result_string = search_web_loop results
      in if strip result_string \<noteq> []
         then (success_marker @ ''\<newline>\<newline>'' @ result_string, tr1)
         else (no_results_sentinel, tr1))"


section \<open>OllamaAgent.generate_response\<close>

definition search_marker :: string where
  "search_marker = ''[SEARCH:''"

text \<open>Line 130: the text after the first marker, up to the first closing bracket, trimmed.\<close>

definition extract_search_query :: "string \<Rightarrow> string" where
  "extract_search_query response =
     strip ((split1 ((split1 response search_marker) ! 1) '']'') ! 0)"

definition first_messages :: "OllamaAgent \<Rightarrow> string \<Rightarrow> message list" where
  "first_messages agent msg =
     [\<lparr>role = ''system'', content = system_prompt agent\<rparr>,
      \<lparr>role = ''user'', content = msg\<rparr>]"

definition search_followup :: "string \<Rightarrow> string \<Rightarrow> string" where
  "search_followup search_query search_results =
     ''Here are the search results for '' @ squote @ search_query @ squote
       @ '':\<newline>\<newline>'' @ search_results
       @ ''\<newline>\<newline>Please provide an updated response based on this information.''"

definition second_messages :: "OllamaAgent \<Rightarrow> string \<Rightarrow> string \<Rightarrow> string \<Rightarrow> message list" where
  "second_messages agent msg response search_results =
     first_messages agent msg
       @ [\<lparr>role = ''assistant'', content = response\<rparr>,
          \<lparr>role = ''user'',
           content = search_followup (extract_search_query response) search_results\<rparr>]"

text \<open>
  Lines 127 to 134: the search round. The result is the response that the rest of
  the method parses, the flag, and the calls made.
\<close>

definition search_round ::
  "env \<Rightarrow> OllamaAgent \<Rightarrow> string \<Rightarrow> string option \<Rightarrow> event list
     \<Rightarrow> string option \<times> bool \<times> event list" where
  "search_round e agent msg response tr =
     (case response of
        None \<Rightarrow> (response, False, tr)
      | Some r \<Rightarrow>
          if contains r search_marker then
            (let search_query = extract_search_query r;
                 (search_results, tr1) = search_web e search_query tr;
                 messages = second_messages agent msg r search_results
             in (generate_with_references e tr1 (model agent) messages None, True,
                 tr1 @ [Completion (model agent) messages None]))
          else (response, False, tr))"

text \<open>
  Lines 136 to 141: json.loads raises TypeError on None, which the handler for
  JSONDecodeError does not catch.
\<close>

definition reserialize ::
  "env \<Rightarrow> string option \<Rightarrow> bool \<Rightarrow> exn + (string option \<times> bool)" where
  "reserialize e response web_search_performed =
     (case response of
        None \<Rightarrow> Inl (TypeError ''the JSON object must be str, bytes or bytearray, not NoneType'')
      | Some s \<Rightarrow>
          (case json_loads e s of
             Some json_response \<Rightarrow> Inr (Some (json_dumps e json_response), web_search_performed)
           | None \<Rightarrow> Inr (response, web_search_performed)))"

text \<open>generate_response (lines 120 to 141): the outcome and the calls made.\<close>

definition generate_response ::
  "env \<Rightarrow> OllamaAgent \<Rightarrow> string \<Rightarrow> event list
     \<Rightarrow> (exn + (string option \<times> bool)) \<times> event list" where
  "generate_response e agent msg tr =
     (let messages = first_messages agent msg;
          response = generate_with_references e tr (model agent) messages None;
          tr1 = tr @ [Completion (model agent) messages None];
          (response2, web_search_performed, tr2) = search_round e agent msg response tr1
      in (reserialize e response2 web_search_performed, tr2))"


section \<open>Core memory\<close>

definition empty_core_memory :: core_doc where
  "empty_core_memory = [(''persona'', []), (''user'', []), (''scratchpad'', [])]"

text \<open>Python: d[k] = v on a dictionary that keeps insertion order.\<close>

fun dict_set :: "('k \<times> 'v) list \<Rightarrow> 'k \<Rightarrow> 'v \<Rightarrow> ('k \<times> 'v) list" where
  "dict_set [] k v = [(k, v)]"
| "dict_set ((k', v') # d) k v =
     (if k' = k then (k, v) # d else (k', v') # dict_set d k v)"

text \<open>Python: d.get(k, default).\<close>

definition dict_get :: "('k \<times> 'v) list \<Rightarrow> 'k \<Rightarrow> 'v \<Rightarrow> 'v" where
  "dict_get d k dflt = (case map_of d k of None \<Rightarrow> dflt | Some v \<Rightarrow> v)"

text \<open>
  Modelled from the spec: AgentCoreMemory.update_core_memory and
  AgentCoreMemory.load_core_memory, methods of the llama_cpp_agent package, which is
  not under src. Section 4.4 describes the store as file-backed, with load reading
  the document from durable storage and a write-through expected on edit: the update
  stores the document it is given and writes it through to the file, and load
  returns the document of the file.
\<close>

definition update_core_memory :: "OllamaMixtureOfAgents \<Rightarrow> core_doc \<Rightarrow> OllamaMixtureOfAgents" where
  "update_core_memory st doc = st\<lparr>agent_core_memory := doc, core_memory_file := doc\<rparr>"

text \<open>
  load_core_memory (lines 197 to 198) returns what AgentCoreMemory.load_core_memory
  returns for the file; the latter is modelled from the spec, see above.
\<close>

definition load_core_memory :: "OllamaMixtureOfAgents \<Rightarrow> core_doc \<times> OllamaMixtureOfAgents" where
  "load_core_memory st =
     (core_memory_file st, st\<lparr>agent_core_memory := core_memory_file st\<rparr>)"

text \<open>clear_core_memory (lines 200 to 211).\<close>

definition clear_core_memory :: "OllamaMixtureOfAgents \<Rightarrow> string \<times> OllamaMixtureOfAgents" where
  "clear_core_memory st =
     (''Core memory cleared successfully.'',
      st\<lparr>agent_core_memory := empty_core_memory,
         core_memory := empty_core_memory,
         core_memory_file := empty_core_memory\<rparr>)"

text \<open>edit_core_memory (lines 213 to 218).\<close>

definition edit_core_memory ::
  "OllamaMixtureOfAgents \<Rightarrow> string \<Rightarrow> string \<Rightarrow> string \<Rightarrow> string \<times> OllamaMixtureOfAgents" where
  "edit_core_memory st section key v =
     (let cm1 = (if map_of (core_memory st) section = None
                 then dict_set (core_memory st) section []
                 else core_memory st);
          cm2 = dict_set cm1 section (dict_set (dict_get cm1 section []) key v)
      in (''Core memory updated: '' @ section @ ''.'' @ key @ '' = '' @ v,
          update_core_memory (st\<lparr>core_memory := cm2\<rparr>) cm2))"


section \<open>Archival memory\<close>

text \<open>
  update_memory (lines 190 to 195): one event, then one document, no counter. Line
  192 appends the event with the message as it is. Line 195 hands the message to the
  index, which takes a string and raises on None: the exception leaves the
  method with the event written and the index as it was.
\<close>

definition update_memory ::
  "OllamaMixtureOfAgents \<Rightarrow> string option \<Rightarrow> Roles
     \<Rightarrow> (exn + unit) \<times> OllamaMixtureOfAgents" where
  "update_memory st msg r =
     (let st1 = st\<lparr>agent_event_memory := agent_event_memory st @ [(r, msg)]\<rparr>
      in case msg of
           None \<Rightarrow> (Inl AddDocumentError, st1)
         | Some m \<Rightarrow> (Inr (), st1\<lparr>rag := rag st1 @ [Some m]\<rparr>))"

text \<open>The call self.rag.retrieve_documents(query, k), with the request recorded.\<close>

definition rag_retrieve ::
  "env \<Rightarrow> OllamaMixtureOfAgents \<Rightarrow> string \<Rightarrow> int \<Rightarrow> event list \<Rightarrow> string list \<times> event list" where
  "rag_retrieve e st q k tr = (retrieve_documents e (rag st) q k, tr @ [Retrieve q k])"

text \<open>search_archival_memory (lines 372 to 373).\<close>

definition search_archival_memory ::
  "env \<Rightarrow> OllamaMixtureOfAgents \<Rightarrow> string \<Rightarrow> event list \<Rightarrow> string list \<times> event list" where
  "search_archival_memory e st q tr = rag_retrieve e st q 5 tr"








text \<open>toggle_web_search (lines 364 to 366).\<close>

definition toggle_web_search :: "OllamaMixtureOfAgents \<Rightarrow> bool \<Rightarrow> string \<times> OllamaMixtureOfAgents" where
  "toggle_web_search st enabled =
     (''Web search '' @ (if enabled then ''enabled'' else ''disabled''),
      st\<lparr>web_search_enabled := enabled\<rparr>)"

text \<open>update_memory_section (lines 368 to 370).\<close>

definition update_memory_section :: "env \<Rightarrow> OllamaMixtureOfAgents \<Rightarrow> string" where
  "update_memory_section e st =
     ''Archival Memories:'' @ show_int (document_count st)
       @ ''\<newline>Conversation History Entries:''
       @ show_int (int (length (agent_event_memory st)))
       @ ''\<newline>\<newline>Core Memory Content:\<newline>'' @ json_dumps_indent e (core_memory st)"


section \<open>OllamaMixtureOfAgents.get_response\<close>

text \<open>
  Lines 267 to 268: the reference agents answer the same input. asyncio.gather
  returns the results in the order of the agents, or raises the first exception; the
  model runs the agents one after the other, in that order.
\<close>

fun gather ::
  "env \<Rightarrow> OllamaAgent list \<Rightarrow> string \<Rightarrow> event list
     \<Rightarrow> (exn + (string option \<times> bool) list) \<times> event list" where
  "gather e [] msg tr = (Inr [], tr)"
| "gather e (a # as) msg tr =
     (case generate_response e a msg tr of
        (Inl ex, tr1) \<Rightarrow> (Inl ex, tr1)
      | (Inr r, tr1) \<Rightarrow>
          (case gather e as msg tr1 of
             (Inl ex, tr2) \<Rightarrow> (Inl ex, tr2)
           | (Inr rs, tr2) \<Rightarrow> (Inr (r # rs), tr2)))"

definition error_prefix :: string where
  "error_prefix = ''Error:''"

text \<open>Lines 270 to 275: the body of the loop over the results, and the loop.\<close>

definition fan_in_step ::
  "string list \<times> bool \<Rightarrow> string option \<times> bool \<Rightarrow> string list \<times> bool" where
  "fan_in_step acc result =
     (case acc of (references, web_search_performed) \<Rightarrow>
      case result of (response, search_performed) \<Rightarrow>
        ((case response of
            None \<Rightarrow> references
          | Some r \<Rightarrow> if \<not> startswith r error_prefix then references @ [r] else references),
         web_search_performed \<or> search_performed))"

definition fan_in :: "(string option \<times> bool) list \<Rightarrow> string list \<times> bool" where
  "fan_in results = foldl fan_in_step ([], False) results"

definition all_failed_message :: string where
  "all_failed_message = ''Error: All reference agents failed to generate responses.''"

text \<open>Lines 281 to 296: the first message list, which line 346 replaces.\<close>

definition first_final_prompt ::
  "env \<Rightarrow> OllamaMixtureOfAgents \<Rightarrow> string \<Rightarrow> string list \<Rightarrow> message list" where
  "first_final_prompt e st input_message references =
     (let persona = dict_get (core_memory st) ''persona'' [];
          personality = dict_get persona ''personality'' ''No specific personality defined.''
      in [\<lparr>role = ''system'', content = system_prompt (final_agent st)\<rparr>,
          \<lparr>role = ''system'', content = ''Personality: '' @ personality\<rparr>,
          \<lparr>role = ''user'', content = input_message\<rparr>,
          \<lparr>role = ''system'', content = ''References:\<newline>'' @ join ''\<newline>'' references\<rparr>,
          \<lparr>role = ''system'', content = update_memory_section e st\<rparr>])"

text \<open>Lines 298 to 302: the search on the raw input.\<close>

definition direct_augmentation ::
  "env \<Rightarrow> OllamaMixtureOfAgents \<Rightarrow> string \<Rightarrow> bool \<Rightarrow> message list \<Rightarrow> event list
     \<Rightarrow> (bool \<times> message list) \<times> event list" where
  "direct_augmentation e st input_message web_search_performed final_prompt tr =
     (if web_search_enabled st then
        (let (search_results, tr1) = search_web e input_message tr
         in if contains search_results success_marker
            then ((True,
                   final_prompt
                     @ [\<lparr>role = ''system'',
                         content = ''Web Search Results:\<newline>'' @ search_results\<rparr>]),
                  tr1)
            else ((web_search_performed, final_prompt), tr1))
      else ((web_search_performed, final_prompt), tr))"

definition query_extension_agent :: "OllamaMixtureOfAgents \<Rightarrow> OllamaAgent" where
  "query_extension_agent st =
     \<lparr>model = model (final_agent st), name = ''QueryExtensionAgent'',
      system_prompt = ''You are a world class query extension algorithm capable of extending queries by writing new queries. Do not answer the queries, simply provide a list of additional queries in JSON format.''\<rparr>"

text \<open>
  Lines 311 to 319, the body of the try block: json.loads raises TypeError on None
  and JSONDecodeError on a string that does not parse.
\<close>

definition parse_extension_try :: "env \<Rightarrow> string option \<Rightarrow> exn + QueryExtension" where
  "parse_extension_try e extension_output =
     (case extension_output of
        None \<Rightarrow> Inl (TypeError ''the JSON object must be str, bytes or bytearray, not NoneType'')
      | Some s \<Rightarrow>
          (case json_loads e s of
             None \<Rightarrow> Inl JSONDecodeError
           | Some (JObject d) \<Rightarrow>
               (case model_validate e d of None \<Rightarrow> Inl ValidationError | Some q \<Rightarrow> Inr q)
           | Some (JArray l) \<Rightarrow>
               (case model_validate e [(''queries'', JArray l)] of
                  None \<Rightarrow> Inl ValidationError
                | Some q \<Rightarrow> Inr q)
           | Some _ \<Rightarrow> Inl (ValueError ''Unexpected JSON structure'')))"

text \<open>Lines 310 to 325: the try block with its two handlers.\<close>

definition parse_extension :: "env \<Rightarrow> string option \<Rightarrow> QueryExtension" where
  "parse_extension e extension_output =
     (case parse_extension_try e extension_output of
        Inr q \<Rightarrow> q
      | Inl JSONDecodeError \<Rightarrow> \<lparr>queries = []\<rparr>
      | Inl _ \<Rightarrow> \<lparr>queries = []\<rparr>)"

definition context_header :: string where
  "context_header = ''Consider the following context:\<newline>==========Context===========\<newline>''"

definition no_documents_notice :: string where
  "no_documents_notice = ''No relevant documents found in archival memory.\<newline>\<newline>''"

definition question_footer :: string where
  "question_footer = ''\<newline>======================\<newline>Question: ''"

text \<open>Line 329 and line 337: the k of a retrieval of the turn.\<close>

definition turn_k :: "OllamaMixtureOfAgents \<Rightarrow> int" where
  "turn_k st = min 3 (max 1 (document_count st))"

text \<open>Lines 331 to 332, and lines 339 to 341 with the substring test.\<close>

definition append_documents :: "string \<Rightarrow> string list \<Rightarrow> string" where
  "append_documents prompt documents =
     foldl (\<lambda>p doc. p @ doc @ ''\<newline>\<newline>'') prompt documents"

definition append_new_documents :: "string \<Rightarrow> string list \<Rightarrow> string" where
  "append_new_documents prompt documents =
     foldl (\<lambda>p doc. if \<not> contains p doc then p @ doc @ ''\<newline>\<newline>'' else p) prompt documents"

text \<open>Lines 337 to 341: the body of the loop over the expansion queries.\<close>

definition expansion_step ::
  "env \<Rightarrow> OllamaMixtureOfAgents \<Rightarrow> string \<times> event list \<Rightarrow> QueryItem \<Rightarrow> string \<times> event list" where
  "expansion_step e st acc query_item =
     (case acc of (prompt, tr) \<Rightarrow>
        (let (documents, tr1) = rag_retrieve e st (query query_item) (turn_k st) tr
         in (if documents \<noteq> [] then append_new_documents prompt documents else prompt, tr1)))"

text \<open>Lines 327 to 343: the prompt of the synthesis call.\<close>

definition build_prompt ::
  "env \<Rightarrow> OllamaMixtureOfAgents \<Rightarrow> string \<Rightarrow> QueryExtension \<Rightarrow> event list
     \<Rightarrow> string \<times> event list" where
  "build_prompt e st input_message qs tr =
     (let (documents, tr1) = rag_retrieve e st input_message (turn_k st) tr;
          prompt1 = (if documents \<noteq> [] then append_documents context_header documents
                     else context_header @ no_documents_notice);
          (prompt2, tr2) = foldl (expansion_step e st) (prompt1, tr1) (queries qs)
      in (prompt2 @ question_footer @ input_message, tr2))"

text \<open>Lines 346 to 349: the message list of the synthesis call.\<close>

definition final_messages :: "OllamaMixtureOfAgents \<Rightarrow> string \<Rightarrow> message list" where
  "final_messages st prompt =
     [\<lparr>role = ''system'', content = system_prompt (final_agent st)\<rparr>,
      \<lparr>role = ''user'', content = prompt\<rparr>]"

text \<open>
  Lines 346 to 362: the synthesis call and the commit. When the commit raises, the
  turn raises, after the call and with the event of the commit written.
\<close>

definition synthesize ::
  "env \<Rightarrow> OllamaMixtureOfAgents \<Rightarrow> string \<Rightarrow> bool \<Rightarrow> event list
     \<Rightarrow> (exn + (string option \<times> bool)) \<times> OllamaMixtureOfAgents \<times> event list" where
  "synthesize e st prompt web_search_performed tr =
     (let final_prompt = final_messages st prompt;
          opts = Some (temperature st, max_tokens st);
          final_response = generate_with_references e tr (model (final_agent st)) final_prompt opts;
          tr1 = tr @ [Completion (model (final_agent st)) final_prompt opts]
      in case update_memory st final_response Roles_assistant of
           (Inl ex, st1) \<Rightarrow> (Inl ex, st1, tr1)
         | (Inr u, st1) \<Rightarrow> (Inr (final_response, web_search_performed), st1, tr1))"

text \<open>Lines 304 to 362: from the query expansion to the end of the turn.\<close>

definition expand_and_synthesize ::
  "env \<Rightarrow> OllamaMixtureOfAgents \<Rightarrow> string \<Rightarrow> bool \<Rightarrow> event list
     \<Rightarrow> (exn + (string option \<times> bool)) \<times> OllamaMixtureOfAgents \<times> event list" where
  "expand_and_synthesize e st input_message web_search_performed tr =
     (case generate_response e (query_extension_agent st)
             (''Consider the following query: '' @ input_message) tr of
        (Inl ex, tr1) \<Rightarrow> (Inl ex, st, tr1)
      | (Inr (extension_output, _), tr1) \<Rightarrow>
          (let qs = parse_extension e extension_output;
               (prompt, tr2) = build_prompt e st input_message qs tr1
           in synthesize e st prompt web_search_performed tr2))"

text \<open>Lines 270 to 362: the turn once the reference agents have answered.\<close>

definition after_gather ::
  "env \<Rightarrow> OllamaMixtureOfAgents \<Rightarrow> string \<Rightarrow> (string option \<times> bool) list \<Rightarrow> event list
     \<Rightarrow> (exn + (string option \<times> bool)) \<times> OllamaMixtureOfAgents \<times> event list" where
  "after_gather e st input_message results tr =
     (let (references, web_search_performed) = fan_in results
      in if references = [] then (Inr (Some all_failed_message, False), st, tr)
         else
           (let final_prompt = first_final_prompt e st input_message references;
                ((web_search_performed1, final_prompt1), tr1) =
                  direct_augmentation e st input_message web_search_performed final_prompt tr
            in expand_and_synthesize e st input_message web_search_performed1 tr1))"

text \<open>
  get_response (lines 262 to 362). The result is the value returned or the exception
  raised, the orchestrator after the call (an exception leaves what was written
  before it) and the calls made.
\<close>

definition get_response ::
  "env \<Rightarrow> OllamaMixtureOfAgents \<Rightarrow> string \<Rightarrow> event list
     \<Rightarrow> (exn + (string option \<times> bool)) \<times> OllamaMixtureOfAgents \<times> event list" where
  "get_response e st input_message tr =
     (case update_memory st (Some input_message) Roles_user of
        (Inl ex, st1) \<Rightarrow> (Inl ex, st1, tr)
      | (Inr u, st1) \<Rightarrow>
          (case gather e (reference_agents st1) input_message tr of
             (Inl ex, tr1) \<Rightarrow> (Inl ex, st1, tr1)
           | (Inr results, tr1) \<Rightarrow> after_gather e st1 input_message results tr1))"


section \<open>Vocabulary of the properties\<close>

text \<open>
  A result of the fan-out that the fan-in drops: None, or a text that begins with
  the reserved error prefix.
\<close>

definition failed_result :: "string option \<times> bool \<Rightarrow> bool" where
  "failed_result result =
     (case fst result of None \<Rightarrow> True | Some r \<Rightarrow> startswith r error_prefix)"

text \<open>The turn aborts at the fan-in: the agents returned and no reference survived.\<close>

definition turn_aborts :: "env \<Rightarrow> OllamaMixtureOfAgents \<Rightarrow> string \<Rightarrow> event list \<Rightarrow> bool" where
  "turn_aborts e st input_message tr =
     (case gather e (reference_agents st) input_message tr of
        (Inl ex, tr1) \<Rightarrow> False
      | (Inr results, tr1) \<Rightarrow> fst (fan_in results) = [])"



section \<open>Concrete collaborators for the examples\<close>

text \<open>
  A small parser, serializer and validator for the examples. The parser knows five
  texts: the empty array, the empty object, the number 7, the array that holds
  the number 7 and an array with one query item; the serializer writes them back. The
  validator follows the declarations of QueryItem and QueryExtension (a missing
  queries key is the empty list; each item is an object with the string fields query
  and type).
\<close>

definition dquote :: string where
  "dquote = [CHR 0x22]"

definition tides_text :: string where
  "tides_text =
     ''[{'' @ dquote @ ''query'' @ dquote @ '': '' @ dquote @ ''tides'' @ dquote @ '', ''
       @ dquote @ ''type'' @ dquote @ '': '' @ dquote @ ''related'' @ dquote @ ''}]''"

definition tides_json :: json where
  "tides_json = JArray [JObject [(''query'', JString ''tides''), (''type'', JString ''related'')]]"

definition demo_json_loads :: "string \<Rightarrow> json option" where
  "demo_json_loads s =
     (if s = ''[]'' then Some (JArray [])
      else if s = ''{}'' then Some (JObject [])
      else if s = ''7'' then Some (JInt 7)
      else if s = ''[7]'' then Some (JArray [JInt 7])
      else if s = tides_text then Some tides_json
      else None)"

definition demo_json_dumps :: "json \<Rightarrow> string" where
  "demo_json_dumps j =
     (if j = JArray [] then ''[]''
      else if j = JObject [] then ''{}''
      else if j = JInt 7 then ''7''
      else if j = JArray [JInt 7] then ''[7]''
      else if j = tides_json then tides_text
      else ''null'')"

fun validate_QueryItem :: "json \<Rightarrow> QueryItem option" where
  "validate_QueryItem (JObject d) =
     (case (map_of d ''query'', map_of d ''type'') of
        (Some (JString q), Some (JString t)) \<Rightarrow> Some \<lparr>query = q, type = t\<rparr>
      | _ \<Rightarrow> None)"
| "validate_QueryItem _ = None"

fun validate_items :: "json list \<Rightarrow> QueryItem list option" where
  "validate_items [] = Some []"
| "validate_items (x # xs) =
     (case validate_QueryItem x of
        None \<Rightarrow> None
      | Some q \<Rightarrow> (case validate_items xs of None \<Rightarrow> None | Some qs \<Rightarrow> Some (q # qs)))"

definition demo_model_validate :: "(string \<times> json) list \<Rightarrow> QueryExtension option" where
  "demo_model_validate d =
     (case map_of d ''queries'' of
        None \<Rightarrow> Some \<lparr>queries = []\<rparr>
      | Some (JArray xs) \<Rightarrow>
          (case validate_items xs of None \<Rightarrow> None | Some qs \<Rightarrow> Some \<lparr>queries = qs\<rparr>)
      | Some _ \<Rightarrow> None)"

text \<open>An index that returns the k documents added last, newest first.\<close>

definition demo_retrieve :: "string option list \<Rightarrow> string \<Rightarrow> int \<Rightarrow> string list" where
  "demo_retrieve idx q k =
     take (nat k) (rev (concat (map (\<lambda>d. case d of None \<Rightarrow> [] | Some s \<Rightarrow> [s]) idx)))"

definition demo_env ::
  "(event list \<Rightarrow> string \<Rightarrow> message list \<Rightarrow> (real \<times> int) option \<Rightarrow> string option)
     \<Rightarrow> string list \<Rightarrow> env" where
  "demo_env llm urls =
     \<lparr>generate_with_references = llm,
      ddgs_text = (\<lambda>tr q. urls),
      retrieve_documents = demo_retrieve,
      json_loads = demo_json_loads,
      json_dumps = demo_json_dumps,
      model_validate = demo_model_validate,
      json_dumps_indent = (\<lambda>d. ''{}''),
      split_text = (\<lambda>c. [c]),
      read_txt = (\<lambda>p. Inr ''notes''),
      pdf_pages = (\<lambda>p. Inl ''No such file''),
      csv_rows = (\<lambda>p. Inr []),
      clear_documents = (\<lambda>idx. None)\<rparr>"

text \<open>A completion function that gives the same answer to every call.\<close>

definition always :: "string \<Rightarrow> event list \<Rightarrow> string \<Rightarrow> message list \<Rightarrow> (real \<times> int) option \<Rightarrow> string option" where
  "always r tr m msgs opts = Some r"

text \<open>
  A completion function for a whole turn: the synthesis call, the only one with
  a temperature, gets the answer; the reference model m1 gets a reference; any other
  call, the query expansion, gets the given text.
\<close>

definition demo_llm :: "string \<Rightarrow> event list \<Rightarrow> string \<Rightarrow> message list \<Rightarrow> (real \<times> int) option \<Rightarrow> string option" where
  "demo_llm ext tr m msgs opts =
     (case opts of
        Some o1 \<Rightarrow> Some ''The answer.''
      | None \<Rightarrow> if m = ''m1'' then Some ''A reference.'' else Some ext)"

definition demo_agent :: OllamaAgent where
  "demo_agent = \<lparr>model = ''m1'', name = ''AnalyticalAgent'', system_prompt = ''Analyse.''\<rparr>"

text \<open>A fresh orchestrator with one reference agent: empty stores, counter 0.\<close>

definition demo_state :: OllamaMixtureOfAgents where
  "demo_state =
     \<lparr>reference_agents = [demo_agent],
      final_agent = \<lparr>model = ''m0'', name = ''SynthesisAgent'', system_prompt = ''Synthesize.''\<rparr>,
      temperature = 0.6,
      max_tokens = 2048,
      web_search_enabled = True,
      core_memory = empty_core_memory,
      agent_core_memory = empty_core_memory,
      core_memory_file = empty_core_memory,
      agent_event_memory = [],
      rag = [],
      document_count = 0\<rparr>"


section \<open>The search round of an agent\<close>

lemma search_web_trace: "snd (search_web e q tr) = tr @ [WebSearch q]"
  by (simp add: search_web_def Let_def)

lemma search_round_marker:
  assumes "contains r search_marker"
  shows "search_round e agent msg (Some r) tr =
           (generate_with_references e (tr @ [WebSearch (extract_search_query r)]) (model agent)
              (second_messages agent msg r (fst (search_web e (extract_search_query r) tr))) None,
            True,
            tr @ [WebSearch (extract_search_query r),
                  Completion (model agent)
                    (second_messages agent msg r (fst (search_web e (extract_search_query r) tr)))
                    None])"
  using assms search_web_trace [of e "extract_search_query r" tr]
  by (cases "search_web e (extract_search_query r) tr") (simp add: search_round_def Let_def)

lemma search_round_no_marker:
  assumes "\<not> contains r search_marker"
  shows "search_round e agent msg (Some r) tr = (Some r, False, tr)"
  using assms by (simp add: search_round_def)

lemma generate_response_unfold:
  "generate_response e agent msg tr =
     (let sr = search_round e agent msg
                 (generate_with_references e tr (model agent) (first_messages agent msg) None)
                 (tr @ [Completion (model agent) (first_messages agent msg) None])
      in (reserialize e (fst sr) (fst (snd sr)), snd (snd sr)))"
  by (simp add: generate_response_def Let_def split: prod.splits)

lemma extract_solar: "extract_search_query ''[SEARCH: solar flares]'' = ''solar flares''"
  by (simp add: extract_search_query_def split1_def search_marker_def strip_def isspace_def)


text \<open>
  Claim C4. When the first completion output of generate_response is a string that
  contains the search marker, the calls made are exactly three: the first completion,
  one web search with the query extracted after the marker, and one more completion
  on the extended message list. The second output is not inspected for a marker, so
  no second search round follows. In the example the first output and the second are
  both the string with the marker for solar flares, and the query is solar flares.
\<close>

theorem C4_one_search_round:
  assumes "generate_with_references e tr (model agent) (first_messages agent msg) None = Some r"
      and "contains r search_marker"
  shows "snd (generate_response e agent msg tr) =
           tr @ [Completion (model agent) (first_messages agent msg) None,
                 WebSearch (extract_search_query r),
                 Completion (model agent)
                   (second_messages agent msg r
                      (fst (search_web e (extract_search_query r)
                              (tr @ [Completion (model agent) (first_messages agent msg) None]))))
                   None]"
  using assms by (simp add: generate_response_unfold search_round_marker Let_def)

theorem C4_one_search_round_witness:
  "generate_with_references (demo_env (always ''[SEARCH: solar flares]'') []) [] (model demo_agent)
       (first_messages demo_agent ''What is the sun doing?'') None = Some ''[SEARCH: solar flares]''
   \<and> contains ''[SEARCH: solar flares]'' search_marker
   \<and> snd (generate_response (demo_env (always ''[SEARCH: solar flares]'') []) demo_agent
             ''What is the sun doing?'' []) =
       [Completion ''m1'' (first_messages demo_agent ''What is the sun doing?'') None,
        WebSearch ''solar flares'',
        Completion ''m1''
          (second_messages demo_agent ''What is the sun doing?'' ''[SEARCH: solar flares]''
             no_results_sentinel)
          None]
   \<and> fst (generate_response (demo_env (always ''[SEARCH: solar flares]'') []) demo_agent
             ''What is the sun doing?'' []) = Inr (Some ''[SEARCH: solar flares]'', True)"
proof -
  have h1: "generate_with_references (demo_env (always ''[SEARCH: solar flares]'') []) [] (model demo_agent)
       (first_messages demo_agent ''What is the sun doing?'') None = Some ''[SEARCH: solar flares]''"
    by (simp add: demo_env_def always_def)
  have h2: "contains ''[SEARCH: solar flares]'' search_marker"
    by (simp add: contains_def search_marker_def)
  have h3: "fst (search_web (demo_env (always ''[SEARCH: solar flares]'') []) q t) = no_results_sentinel" for q t
    by (simp add: search_web_def demo_env_def search_web_loop_def strip_def)
  have h4: "fst (generate_response (demo_env (always ''[SEARCH: solar flares]'') []) demo_agent
             ''What is the sun doing?'' []) = Inr (Some ''[SEARCH: solar flares]'', True)"
    using h2 by (simp add: generate_response_unfold search_round_marker Let_def reserialize_def
        demo_env_def always_def demo_json_loads_def tides_text_def dquote_def)
  show ?thesis
    using C4_one_search_round [OF h1 h2] h1 h2 h3 h4
    by (simp add: extract_solar demo_agent_def)
qed

section \<open>The search trigger\<close>

lemma split1_found: "find_sub s sep = Some (a, b) \<Longrightarrow> split1 s sep = [a, b]"
  by (simp add: split1_def)

lemma split1_missing: "\<not> contains s sep \<Longrightarrow> split1 s sep = [s]"
  by (cases "find_sub s sep") (auto simp: split1_def contains_def)

lemma demo_env_sel:
  "generate_with_references (demo_env llm urls) = llm"
  "ddgs_text (demo_env llm urls) tr q = urls"
  "retrieve_documents (demo_env llm urls) = demo_retrieve"
  "json_loads (demo_env llm urls) = demo_json_loads"
  "json_dumps (demo_env llm urls) = demo_json_dumps"
  "model_validate (demo_env llm urls) = demo_model_validate"
  by (simp_all add: demo_env_def)

lemma demo_search_empty: "fst (search_web (demo_env llm []) q tr) = no_results_sentinel"
  by (simp add: search_web_def demo_env_sel search_web_loop_def strip_def)

text \<open>
  Claim C8, as amended. A string response triggers the search round exactly when it
  contains the marker: the closing bracket is not part of the test. The bracket only
  ends the query; when no bracket follows the marker, the query is the rest of the
  response, trimmed. The claim as stated fails: a response with the marker and no
  closing bracket does start a search round.
\<close>

theorem C8_marker_alone_triggers:
  assumes "generate_with_references e tr (model agent) (first_messages agent msg) None = Some r"
  shows "snd (generate_response e agent msg tr) =
           (if contains r search_marker
            then tr @ [Completion (model agent) (first_messages agent msg) None,
                       WebSearch (extract_search_query r),
                       Completion (model agent)
                         (second_messages agent msg r
                            (fst (search_web e (extract_search_query r)
                               (tr @ [Completion (model agent) (first_messages agent msg) None]))))
                         None]
            else tr @ [Completion (model agent) (first_messages agent msg) None])
         \<and> (\<forall>pre rest. find_sub r search_marker = Some (pre, rest) \<and> \<not> contains rest '']''
               \<longrightarrow> extract_search_query r = strip rest)"
  using assms
  by (simp add: generate_response_unfold search_round_marker search_round_no_marker Let_def
      extract_search_query_def split1_found split1_missing)

theorem C8_counterexample:
  "\<not> contains ''[SEARCH: foo'' '']''
   \<and> snd (generate_response (demo_env (always ''[SEARCH: foo'') []) demo_agent ''q'' []) =
       [Completion ''m1'' (first_messages demo_agent ''q'') None,
        WebSearch ''foo'',
        Completion ''m1''
          (second_messages demo_agent ''q'' ''[SEARCH: foo'' no_results_sentinel) None]"
proof -
  have c: "contains ''[SEARCH: foo'' search_marker"
    by (simp add: contains_def search_marker_def)
  have q: "extract_search_query ''[SEARCH: foo'' = ''foo''"
    by (simp add: extract_search_query_def split1_def search_marker_def strip_def isspace_def)
  have n: "\<not> contains ''[SEARCH: foo'' '']''"
    by (simp add: contains_def)
  show ?thesis
    using c n
    by (simp add: generate_response_unfold search_round_marker Let_def q demo_search_empty
        demo_env_sel always_def demo_agent_def)
qed

theorem C8_marker_alone_triggers_witness:
  "generate_with_references (demo_env (always ''Look: [SEARCH: tides'') []) [] (model demo_agent)
       (first_messages demo_agent ''q'') None = Some ''Look: [SEARCH: tides''
   \<and> find_sub ''Look: [SEARCH: tides'' search_marker = Some (''Look: '', '' tides'')
   \<and> \<not> contains '' tides'' '']''
   \<and> extract_search_query ''Look: [SEARCH: tides'' = ''tides''
   \<and> snd (generate_response (demo_env (always ''Look: [SEARCH: tides'') []) demo_agent ''q'' []) =
       [Completion ''m1'' (first_messages demo_agent ''q'') None,
        WebSearch ''tides'',
        Completion ''m1''
          (second_messages demo_agent ''q'' ''Look: [SEARCH: tides'' no_results_sentinel) None]"
proof -
  have h1: "generate_with_references (demo_env (always ''Look: [SEARCH: tides'') []) [] (model demo_agent)
       (first_messages demo_agent ''q'') None = Some ''Look: [SEARCH: tides''"
    by (simp add: demo_env_sel always_def)
  have f: "find_sub ''Look: [SEARCH: tides'' search_marker = Some (''Look: '', '' tides'')"
    by (simp add: search_marker_def)
  have n: "\<not> contains '' tides'' '']''"
    by (simp add: contains_def)
  have c: "contains ''Look: [SEARCH: tides'' search_marker"
    using f by (simp add: contains_def)
  have st: "strip '' tides'' = ''tides''"
    by (simp add: strip_def isspace_def)
  from C8_marker_alone_triggers [OF h1] f n
  have q: "extract_search_query ''Look: [SEARCH: tides'' = strip '' tides''"
    by blast
  show ?thesis
    using C8_marker_alone_triggers [OF h1] h1 f n c q
    by (simp add: st demo_search_empty demo_agent_def)
qed

section \<open>Web augmentation and its discriminator\<close>


lemma foldl_append_concat:
  "foldl (\<lambda>acc x. acc @ f x) acc0 xs = acc0 @ concat (map f xs)"
  by (induction xs arbitrary: acc0) simp_all








section \<open>The fan-in and the aborted turn\<close>

lemma fan_in_step_failed:
  "failed_result result \<Longrightarrow> fst (fan_in_step (references, flag) result) = references"
  by (cases result) (auto simp: failed_result_def fan_in_step_def split: option.splits)

lemma foldl_fan_in_failed:
  "list_all failed_result results \<Longrightarrow>
     fst (foldl fan_in_step (references, flag) results) = references"
proof (induction results arbitrary: references flag)
  case Nil
  then show ?case by simp
next
  case (Cons r rs)
  obtain refs' flag' where s: "fan_in_step (references, flag) r = (refs', flag')"
    by (cases "fan_in_step (references, flag) r")
  with Cons.prems fan_in_step_failed [of r references flag] have "refs' = references"
    by simp
  with Cons s show ?case by simp
qed

lemma fan_in_failed: "list_all failed_result results \<Longrightarrow> fst (fan_in results) = []"
  by (simp add: fan_in_def foldl_fan_in_failed)

lemma after_gather_abort:
  "fst (fan_in results) = [] \<Longrightarrow>
     after_gather e st input_message results tr = (Inr (Some all_failed_message, False), st, tr)"
  by (cases "fan_in results") (simp add: after_gather_def)

lemma update_memory_text:
  "update_memory st (Some m) r =
     (Inr (),
      st\<lparr>agent_event_memory := agent_event_memory st @ [(r, Some m)],
         rag := rag st @ [Some m]\<rparr>)"
  by (simp add: update_memory_def)

lemma update_memory_none:
  "update_memory st None r =
     (Inl AddDocumentError, st\<lparr>agent_event_memory := agent_event_memory st @ [(r, None)]\<rparr>)"
  by (simp add: update_memory_def)

lemma get_response_gathered:
  "gather e (reference_agents st) input_message tr = (Inr results, tr1) \<Longrightarrow>
     get_response e st input_message tr =
       after_gather e (snd (update_memory st (Some input_message) Roles_user))
         input_message results tr1"
  by (simp add: get_response_def update_memory_text)

text \<open>
  Claim C3. When every result of the fan-out is None or begins with the error
  prefix, the rest of the turn returns the error-tagged text with the flag False and
  leaves the orchestrator and the calls as they are. For get_response as a whole:
  when the agents return such results, it returns that value instead of raising, and
  the orchestrator differs from the one before the call by the user turn only, one
  event and one document; nothing is committed for the assistant.
\<close>

theorem C3_all_failed_returns_error:
  assumes "list_all failed_result results"
  shows "after_gather e st input_message results tr =
           (Inr (Some all_failed_message, False), st, tr)
         \<and> startswith all_failed_message error_prefix
         \<and> (gather e (reference_agents st) input_message tr0 = (Inr results, tr) \<longrightarrow>
              get_response e st input_message tr0 =
                (Inr (Some all_failed_message, False),
                 st\<lparr>agent_event_memory := agent_event_memory st @ [(Roles_user, Some input_message)],
                    rag := rag st @ [Some input_message]\<rparr>,
                 tr))"
proof -
  have a: "fst (fan_in results) = []"
    using assms by (rule fan_in_failed)
  have b: "startswith all_failed_message error_prefix"
    by (simp add: all_failed_message_def error_prefix_def)
  show ?thesis
    using a b
    by (auto simp: after_gather_abort get_response_gathered update_memory_text)
qed

lemma demo_gather_error:
  "gather (demo_env (always ''Error: model unavailable'') []) (reference_agents demo_state) ''hi'' []
     = (Inr [(Some ''Error: model unavailable'', False)],
        [Completion ''m1'' (first_messages demo_agent ''hi'') None])"
proof -
  have n: "\<not> contains ''Error: model unavailable'' search_marker"
    by (simp add: contains_def search_marker_def)
  have g: "generate_response (demo_env (always ''Error: model unavailable'') []) demo_agent ''hi'' []
     = (Inr (Some ''Error: model unavailable'', False),
        [Completion ''m1'' (first_messages demo_agent ''hi'') None])"
    using n
    by (simp add: generate_response_unfold demo_env_sel always_def search_round_no_marker
        reserialize_def demo_json_loads_def tides_text_def dquote_def demo_agent_def)
  show ?thesis
    using g by (simp add: demo_state_def)
qed

theorem C3_all_failed_returns_error_witness:
  "list_all failed_result [(None, True), (Some ''Error: timeout'', False)]
   \<and> after_gather (demo_env (always ''x'') []) demo_state ''hi''
       [(None, True), (Some ''Error: timeout'', False)] []
       = (Inr (Some all_failed_message, False), demo_state, [])
   \<and> list_all failed_result [(Some ''Error: model unavailable'', False)]
   \<and> get_response (demo_env (always ''Error: model unavailable'') []) demo_state ''hi'' [] =
       (Inr (Some all_failed_message, False),
        demo_state\<lparr>agent_event_memory := [(Roles_user, Some ''hi'')], rag := [Some ''hi'']\<rparr>,
        [Completion ''m1'' (first_messages demo_agent ''hi'') None])"
proof -
  have h1: "list_all failed_result [(None, True), (Some ''Error: timeout'', False)]"
    by (simp add: failed_result_def error_prefix_def)
  have h2: "list_all failed_result [(Some ''Error: model unavailable'', False)]"
    by (simp add: failed_result_def error_prefix_def)
  have e: "agent_event_memory demo_state = [] \<and> rag demo_state = []"
    by (simp add: demo_state_def)
  show ?thesis
    using C3_all_failed_returns_error [OF h1, where e = "demo_env (always ''x'') []"
        and st = demo_state and input_message = "''hi''" and tr = "[]" and ?tr0.0 = "[]"]
      C3_all_failed_returns_error [OF h2, where e = "demo_env (always ''Error: model unavailable'') []"
        and st = demo_state and input_message = "''hi''"
        and tr = "[Completion ''m1'' (first_messages demo_agent ''hi'') None]" and ?tr0.0 = "[]"]
      demo_gather_error h1 h2 e
    by simp
qed

section \<open>What a turn writes to the archival memory\<close>

lemma synthesize_rag:
  "rag (fst (snd (synthesize e st prompt flag tr))) =
     (case fst (synthesize e st prompt flag tr) of
        Inl ex \<Rightarrow> rag st
      | Inr (response, f) \<Rightarrow> rag st @ [response])"
  by (cases "generate_with_references e tr (model (final_agent st)) (final_messages st prompt)
               (Some (temperature st, max_tokens st))")
     (simp_all add: synthesize_def Let_def update_memory_text update_memory_none)


lemma expand_and_synthesize_cases:
  "(\<exists>ex tr1. expand_and_synthesize e st input_message flag tr = (Inl ex, st, tr1))
   \<or> (\<exists>prompt tr2. expand_and_synthesize e st input_message flag tr
                       = synthesize e st prompt flag tr2)"
proof (cases "generate_response e (query_extension_agent st)
                (''Consider the following query: '' @ input_message) tr")
  case (Pair res tr1)
  then show ?thesis
    by (cases res)
       (auto simp: expand_and_synthesize_def Let_def split: prod.splits)
qed

lemma expand_and_synthesize_rag:
  "rag (fst (snd (expand_and_synthesize e st input_message flag tr))) =
     (case fst (expand_and_synthesize e st input_message flag tr) of
        Inl ex \<Rightarrow> rag st
      | Inr (response, f) \<Rightarrow> rag st @ [response])"
  using expand_and_synthesize_cases [of e st input_message flag tr]
  by (auto simp: synthesize_rag)


lemma after_gather_expand:
  assumes "fst (fan_in results) \<noteq> []"
  shows "after_gather e st input_message results tr =
           expand_and_synthesize e st input_message
             (fst (fst (direct_augmentation e st input_message (snd (fan_in results))
                          (first_final_prompt e st input_message (fst (fan_in results))) tr)))
             (snd (direct_augmentation e st input_message (snd (fan_in results))
                     (first_final_prompt e st input_message (fst (fan_in results))) tr))"
  using assms by (auto simp: after_gather_def Let_def split: prod.splits)

lemma after_gather_rag:
  "rag (fst (snd (after_gather e st input_message results tr))) =
     (case fst (after_gather e st input_message results tr) of
        Inl ex \<Rightarrow> rag st
      | Inr (response, f) \<Rightarrow>
          if fst (fan_in results) = [] then rag st else rag st @ [response])"
proof (cases "fst (fan_in results) = []")
  case True
  then show ?thesis by (simp add: after_gather_abort)
next
  case False
  then show ?thesis
    by (simp add: after_gather_expand expand_and_synthesize_rag split: sum.splits prod.splits)
qed


lemma get_response_rag:
  "rag (fst (snd (get_response e st input_message tr))) =
     (case fst (get_response e st input_message tr) of
        Inl ex \<Rightarrow> rag st @ [Some input_message]
      | Inr (response, f) \<Rightarrow>
          if turn_aborts e st input_message tr then rag st @ [Some input_message]
          else rag st @ [Some input_message, response])"
proof (cases "gather e (reference_agents st) input_message tr")
  case (Pair res tr1)
  show ?thesis
  proof (cases res)
    case (Inl ex)
    with Pair show ?thesis
      by (simp add: get_response_def update_memory_text)
  next
    case (Inr results)
    with Pair have g: "get_response e st input_message tr =
        after_gather e (snd (update_memory st (Some input_message) Roles_user))
          input_message results tr1"
      by (simp add: get_response_gathered)
    have t: "turn_aborts e st input_message tr = (fst (fan_in results) = [])"
      using Pair Inr by (simp add: turn_aborts_def)
    have r: "rag (snd (update_memory st (Some input_message) Roles_user))
               = rag st @ [Some input_message]"
      by (simp add: update_memory_text)
    show ?thesis
      unfolding g t
      by (simp add: after_gather_rag r split: sum.splits prod.splits)
  qed
qed

text \<open>
  Claim C1, as amended. The documents of the index after get_response are those
  before it, then the input, then, when the turn completes, the final response: two
  more documents after a completed turn, and one more, the user ingestion of line
  264, after a turn that aborts at the fan-in or raises. No upload and no direct add
  happens inside get_response.
\<close>

theorem C1_archival_growth:
  "rag (fst (snd (get_response e st input_message tr))) =
     (case fst (get_response e st input_message tr) of
        Inl ex \<Rightarrow> rag st @ [Some input_message]
      | Inr (response, f) \<Rightarrow>
          if turn_aborts e st input_message tr then rag st @ [Some input_message]
          else rag st @ [Some input_message, response])
   \<and> length (rag (fst (snd (get_response e st input_message tr)))) =
       length (rag st)
         + (if isl (fst (get_response e st input_message tr)) \<or> turn_aborts e st input_message tr
            then 1 else 2)"
proof -
  have a: "rag (fst (snd (get_response e st input_message tr))) =
     (case fst (get_response e st input_message tr) of
        Inl ex \<Rightarrow> rag st @ [Some input_message]
      | Inr (response, f) \<Rightarrow>
          if turn_aborts e st input_message tr then rag st @ [Some input_message]
          else rag st @ [Some input_message, response])"
    by (rule get_response_rag)
  show ?thesis
    by (simp add: a split: sum.splits prod.splits)
qed

theorem C1_counterexample:
  "fst (get_response (demo_env (always ''Error: model unavailable'') []) demo_state ''hi'' [])
     = Inr (Some all_failed_message, False)
   \<and> turn_aborts (demo_env (always ''Error: model unavailable'') []) demo_state ''hi'' []
   \<and> length (rag demo_state) = 0
   \<and> length (rag (fst (snd (get_response (demo_env (always ''Error: model unavailable'') [])
                                demo_state ''hi'' [])))) = 1"
proof -
  have f: "fst (fan_in [(Some ''Error: model unavailable'', False)]) = []"
    by (simp add: fan_in_def fan_in_step_def error_prefix_def)
  have g: "get_response (demo_env (always ''Error: model unavailable'') []) demo_state ''hi'' []
     = (Inr (Some all_failed_message, False),
        snd (update_memory demo_state (Some ''hi'') Roles_user),
        [Completion ''m1'' (first_messages demo_agent ''hi'') None])"
    using get_response_gathered [OF demo_gather_error] f
    by (simp add: after_gather_abort)
  have t: "turn_aborts (demo_env (always ''Error: model unavailable'') []) demo_state ''hi'' []"
    using demo_gather_error f by (simp add: turn_aborts_def)
  have r0: "rag demo_state = []"
    by (simp add: demo_state_def)
  show ?thesis
    using t by (simp add: g update_memory_text r0)
qed

section \<open>The calls of a turn and the document counter\<close>




lemma direct_augmentation_events:
  "snd (direct_augmentation e st input_message flag final_prompt tr) =
     (if web_search_enabled st then tr @ [WebSearch input_message] else tr)"
  using search_web_trace [of e input_message tr]
  by (cases "search_web e input_message tr") (simp add: direct_augmentation_def)

lemma expansion_events:
  "snd (foldl (expansion_step e st) (prompt, tr) qs) =
     tr @ map (\<lambda>q. Retrieve (query q) (turn_k st)) qs"
  by (induction qs arbitrary: prompt tr)
     (simp_all add: expansion_step_def rag_retrieve_def)

lemma build_prompt_events:
  "snd (build_prompt e st input_message qs tr) =
     tr @ Retrieve input_message (turn_k st)
            # map (\<lambda>q. Retrieve (query q) (turn_k st)) (queries qs)"
proof -
  obtain p t where f: "foldl (expansion_step e st)
       (if retrieve_documents e (rag st) input_message (turn_k st) \<noteq> []
        then append_documents context_header
               (retrieve_documents e (rag st) input_message (turn_k st))
        else context_header @ no_documents_notice,
        tr @ [Retrieve input_message (turn_k st)]) (queries qs) = (p, t)"
    by (cases "foldl (expansion_step e st)
       (if retrieve_documents e (rag st) input_message (turn_k st) \<noteq> []
        then append_documents context_header
               (retrieve_documents e (rag st) input_message (turn_k st))
        else context_header @ no_documents_notice,
        tr @ [Retrieve input_message (turn_k st)]) (queries qs)")
  then have "t = (tr @ [Retrieve input_message (turn_k st)])
                   @ map (\<lambda>q. Retrieve (query q) (turn_k st)) (queries qs)"
    using expansion_events [of e st _ "tr @ [Retrieve input_message (turn_k st)]" "queries qs"]
    by (metis snd_conv)
  with f show ?thesis
    by (simp add: build_prompt_def rag_retrieve_def Let_def)
qed


lemma synthesize_trace:
  "snd (snd (synthesize e st prompt flag tr)) =
     tr @ [Completion (model (final_agent st)) (final_messages st prompt)
             (Some (temperature st, max_tokens st))]"
  by (cases "generate_with_references e tr (model (final_agent st)) (final_messages st prompt)
               (Some (temperature st, max_tokens st))")
     (simp_all add: synthesize_def Let_def update_memory_text update_memory_none)











section \<open>The k of the archival search\<close>

text \<open>
  Claim C5. On a fresh orchestrator, with no chunk and the counter at 0, the formula
  of the turn gives k = 1, and search_archival_memory requests k = 5 from the index:
  line 373 passes the constant and does not apply the formula that lines 329 and
  337 apply.
\<close>

theorem C5_search_archival_requests_five:
  "rag demo_state = []
   \<and> document_count demo_state = 0
   \<and> turn_k demo_state = 1
   \<and> snd (search_archival_memory (demo_env (always ''x'') []) demo_state ''solar flares'' [])
       = [Retrieve ''solar flares'' 5]"
  by (simp add: demo_state_def turn_k_def search_archival_memory_def rag_retrieve_def)


section \<open>Core memory\<close>

lemma map_of_dict_set_same: "map_of (dict_set d k v) k = Some v"
  by (induction d) auto

text \<open>
  Claim C9. From the empty document with the three sections, editing persona, tone,
  formal gives the document with that one entry, in the orchestrator and, by the
  write-through of the modelled store, in what load returns. After clear the
  document of the orchestrator and the document that load returns are the empty
  three-section document. An edit of a section that the document does not have
  creates the section, with the edited key as its only entry.
\<close>

theorem C9_core_memory_scenario:
  "core_memory (snd (edit_core_memory (st\<lparr>core_memory := empty_core_memory\<rparr>)
                       ''persona'' ''tone'' ''formal''))
     = [(''persona'', [(''tone'', ''formal'')]), (''user'', []), (''scratchpad'', [])]
   \<and> fst (load_core_memory (snd (edit_core_memory (st\<lparr>core_memory := empty_core_memory\<rparr>)
                                    ''persona'' ''tone'' ''formal'')))
     = [(''persona'', [(''tone'', ''formal'')]), (''user'', []), (''scratchpad'', [])]
   \<and> core_memory (snd (clear_core_memory st))
     = [(''persona'', []), (''user'', []), (''scratchpad'', [])]
   \<and> fst (load_core_memory (snd (clear_core_memory st)))
     = [(''persona'', []), (''user'', []), (''scratchpad'', [])]
   \<and> (map_of (core_memory st) section = None \<longrightarrow>
        map_of (core_memory (snd (edit_core_memory st section key v))) section
          = Some [(key, v)])"
proof -
  have a: "core_memory (snd (edit_core_memory (st\<lparr>core_memory := empty_core_memory\<rparr>)
                       ''persona'' ''tone'' ''formal''))
     = [(''persona'', [(''tone'', ''formal'')]), (''user'', []), (''scratchpad'', [])]"
    by (simp add: edit_core_memory_def empty_core_memory_def update_core_memory_def
        dict_get_def Let_def)
  have b: "fst (load_core_memory (snd (edit_core_memory (st\<lparr>core_memory := empty_core_memory\<rparr>)
                                    ''persona'' ''tone'' ''formal'')))
     = [(''persona'', [(''tone'', ''formal'')]), (''user'', []), (''scratchpad'', [])]"
    by (simp add: edit_core_memory_def empty_core_memory_def update_core_memory_def
        load_core_memory_def dict_get_def Let_def)
  have c: "core_memory (snd (clear_core_memory st))
     = [(''persona'', []), (''user'', []), (''scratchpad'', [])]
   \<and> fst (load_core_memory (snd (clear_core_memory st)))
     = [(''persona'', []), (''user'', []), (''scratchpad'', [])]"
    by (simp add: clear_core_memory_def load_core_memory_def empty_core_memory_def)
  have d: "map_of (core_memory st) section = None \<longrightarrow>
        map_of (core_memory (snd (edit_core_memory st section key v))) section
          = Some [(key, v)]"
    by (simp add: edit_core_memory_def update_core_memory_def dict_get_def Let_def
        map_of_dict_set_same)
  from a b c d show ?thesis by blast
qed

theorem C9_core_memory_scenario_witness:
  "map_of (core_memory demo_state) ''goals'' = None
   \<and> core_memory (snd (edit_core_memory demo_state ''goals'' ''next'' ''ship''))
       = [(''persona'', []), (''user'', []), (''scratchpad'', []), (''goals'', [(''next'', ''ship'')])]
   \<and> map_of (core_memory (snd (edit_core_memory demo_state ''goals'' ''next'' ''ship''))) ''goals''
       = Some [(''next'', ''ship'')]
   \<and> fst (load_core_memory (snd (edit_core_memory demo_state ''persona'' ''tone'' ''formal'')))
       = [(''persona'', [(''tone'', ''formal'')]), (''user'', []), (''scratchpad'', [])]"
proof -
  have h: "map_of (core_memory demo_state) ''goals'' = None"
    by (simp add: demo_state_def empty_core_memory_def)
  have e: "core_memory (snd (edit_core_memory demo_state ''goals'' ''next'' ''ship''))
       = [(''persona'', []), (''user'', []), (''scratchpad'', []), (''goals'', [(''next'', ''ship'')])]"
    by (simp add: edit_core_memory_def demo_state_def empty_core_memory_def
        update_core_memory_def dict_get_def Let_def)
  have s: "demo_state\<lparr>core_memory := empty_core_memory\<rparr> = demo_state"
    by (simp add: demo_state_def)
  show ?thesis
    using C9_core_memory_scenario [of demo_state "''goals''" "''next''" "''ship''"] h e s
    by simp
qed

section \<open>Query expansion\<close>

lemma parse_extension_failed:
  "isl (parse_extension_try e out) \<Longrightarrow> parse_extension e out = \<lparr>queries = []\<rparr>"
  by (cases "parse_extension_try e out") (auto simp: parse_extension_def split: exn.splits)

lemma build_prompt_no_queries:
  "build_prompt e st input_message \<lparr>queries = []\<rparr> tr =
     ((if retrieve_documents e (rag st) input_message (turn_k st) \<noteq> []
       then append_documents context_header
              (retrieve_documents e (rag st) input_message (turn_k st))
       else context_header @ no_documents_notice) @ question_footer @ input_message,
      tr @ [Retrieve input_message (turn_k st)])"
  by (simp add: build_prompt_def rag_retrieve_def Let_def)

lemma after_gather_survivors:
  assumes "fst (fan_in results) \<noteq> []"
  shows "after_gather e st input_message results tr =
           expand_and_synthesize e st input_message
             (fst (fst (direct_augmentation e st input_message (snd (fan_in results))
                          (first_final_prompt e st input_message (fst (fan_in results))) tr)))
             (if web_search_enabled st then tr @ [WebSearch input_message] else tr)"
proof -
  have "after_gather e st input_message results tr =
      expand_and_synthesize e st input_message
        (fst (fst (direct_augmentation e st input_message (snd (fan_in results))
                 (first_final_prompt e st input_message (fst (fan_in results))) tr)))
        (snd (direct_augmentation e st input_message (snd (fan_in results))
                 (first_final_prompt e st input_message (fst (fan_in results))) tr))"
    using assms by (auto simp: after_gather_def Let_def split: prod.splits)
  then show ?thesis
    by (simp only: direct_augmentation_events)
qed

lemma expand_and_synthesize_returns:
  assumes "generate_response e (query_extension_agent st)
             (''Consider the following query: '' @ input_message) tr = (Inr (out, f), tr1)"
  shows "expand_and_synthesize e st input_message flag tr =
           synthesize e st (fst (build_prompt e st input_message (parse_extension e out) tr1)) flag
             (snd (build_prompt e st input_message (parse_extension e out) tr1))"
  using assms by (simp add: expand_and_synthesize_def Let_def split: prod.splits)

lemma synthesize_result:
  "synthesize e st prompt flag tr =
     (let final_response =
            generate_with_references e tr (model (final_agent st)) (final_messages st prompt)
              (Some (temperature st, max_tokens st))
      in ((case final_response of
             None \<Rightarrow> Inl AddDocumentError
           | Some answer \<Rightarrow> Inr (final_response, flag)),
          snd (update_memory st final_response Roles_assistant),
          tr @ [Completion (model (final_agent st)) (final_messages st prompt)
                  (Some (temperature st, max_tokens st))]))"
  by (cases "generate_with_references e tr (model (final_agent st)) (final_messages st prompt)
               (Some (temperature st, max_tokens st))")
     (simp_all add: synthesize_def Let_def update_memory_text update_memory_none)

text \<open>
  Claim C6. When the expansion output parses to a list, the list is wrapped under the
  key queries and validated; when it parses to an object, the object is validated;
  the queries are the validated collection, or the empty collection when validation
  fails. Whatever fails in the try block (no string, no parse, another kind of value,
  no validation), the collection is empty. In that case the rest of the turn makes one
  retrieval, for the original input, and calls the synthesis with the prompt built
  from it; when the synthesis returns a text, the turn commits it and returns it.
  Once the expansion agent has returned, whatever the parse gave, the turn raises
  only when the synthesis call returns None, which the commit of line 360 refuses: no
  failure of the expansion ends the turn.
\<close>

theorem C6_expansion_parse_policy:
  "(json_loads e s = Some (JArray l) \<longrightarrow>
      parse_extension e (Some s) =
        (case model_validate e [(''queries'', JArray l)] of
           Some q \<Rightarrow> q | None \<Rightarrow> \<lparr>queries = []\<rparr>))
   \<and> (json_loads e s = Some (JObject d) \<longrightarrow>
      parse_extension e (Some s) =
        (case model_validate e d of Some q \<Rightarrow> q | None \<Rightarrow> \<lparr>queries = []\<rparr>))
   \<and> (isl (parse_extension_try e out) \<longrightarrow> parse_extension e out = \<lparr>queries = []\<rparr>)
   \<and> (generate_response e (query_extension_agent st)
         (''Consider the following query: '' @ input_message) tr = (Inr (out, f), tr1)
       \<and> isl (parse_extension_try e out) \<longrightarrow>
       (let documents = retrieve_documents e (rag st) input_message (turn_k st);
            prompt = (if documents \<noteq> [] then append_documents context_header documents
                      else context_header @ no_documents_notice)
                     @ question_footer @ input_message;
            opts = Some (temperature st, max_tokens st);
            final_response =
              generate_with_references e (tr1 @ [Retrieve input_message (turn_k st)])
                (model (final_agent st)) (final_messages st prompt) opts
        in expand_and_synthesize e st input_message flag tr =
             ((case final_response of
                 None \<Rightarrow> Inl AddDocumentError
               | Some answer \<Rightarrow> Inr (Some answer, flag)),
              snd (update_memory st final_response Roles_assistant),
              tr1 @ [Retrieve input_message (turn_k st),
                     Completion (model (final_agent st)) (final_messages st prompt) opts])))
   \<and> (fst (fan_in results) \<noteq> []
       \<and> generate_response e (query_extension_agent st)
           (''Consider the following query: '' @ input_message)
           (if web_search_enabled st then tr @ [WebSearch input_message] else tr)
           = (Inr (out, f), tr1) \<longrightarrow>
       isl (fst (after_gather e st input_message results tr)) =
         (generate_with_references e
            (snd (build_prompt e st input_message (parse_extension e out) tr1))
            (model (final_agent st))
            (final_messages st (fst (build_prompt e st input_message (parse_extension e out) tr1)))
            (Some (temperature st, max_tokens st))
          = None))"
proof -
  have a: "json_loads e s = Some (JArray l) \<longrightarrow>
      parse_extension e (Some s) =
        (case model_validate e [(''queries'', JArray l)] of
           Some q \<Rightarrow> q | None \<Rightarrow> \<lparr>queries = []\<rparr>)"
    by (simp add: parse_extension_def parse_extension_try_def split: option.splits)
  have b: "json_loads e s = Some (JObject d) \<longrightarrow>
      parse_extension e (Some s) =
        (case model_validate e d of Some q \<Rightarrow> q | None \<Rightarrow> \<lparr>queries = []\<rparr>)"
    by (simp add: parse_extension_def parse_extension_try_def split: option.splits)
  have c: "isl (parse_extension_try e out) \<longrightarrow> parse_extension e out = \<lparr>queries = []\<rparr>"
    by (simp add: parse_extension_failed)
  have d: "generate_response e (query_extension_agent st)
         (''Consider the following query: '' @ input_message) tr = (Inr (out, f), tr1)
       \<and> isl (parse_extension_try e out) \<longrightarrow>
       (let documents = retrieve_documents e (rag st) input_message (turn_k st);
            prompt = (if documents \<noteq> [] then append_documents context_header documents
                      else context_header @ no_documents_notice)
                     @ question_footer @ input_message;
            opts = Some (temperature st, max_tokens st);
            final_response =
              generate_with_references e (tr1 @ [Retrieve input_message (turn_k st)])
                (model (final_agent st)) (final_messages st prompt) opts
        in expand_and_synthesize e st input_message flag tr =
             ((case final_response of
                 None \<Rightarrow> Inl AddDocumentError
               | Some answer \<Rightarrow> Inr (Some answer, flag)),
              snd (update_memory st final_response Roles_assistant),
              tr1 @ [Retrieve input_message (turn_k st),
                     Completion (model (final_agent st)) (final_messages st prompt) opts]))"
    by (auto simp: expand_and_synthesize_returns parse_extension_failed build_prompt_no_queries
        synthesize_result Let_def split: option.splits)
  have g: "fst (fan_in results) \<noteq> []
       \<and> generate_response e (query_extension_agent st)
           (''Consider the following query: '' @ input_message)
           (if web_search_enabled st then tr @ [WebSearch input_message] else tr)
           = (Inr (out, f), tr1) \<longrightarrow>
       isl (fst (after_gather e st input_message results tr)) =
         (generate_with_references e
            (snd (build_prompt e st input_message (parse_extension e out) tr1))
            (model (final_agent st))
            (final_messages st (fst (build_prompt e st input_message (parse_extension e out) tr1)))
            (Some (temperature st, max_tokens st))
          = None)"
    by (auto simp: after_gather_survivors expand_and_synthesize_returns synthesize_result Let_def
        split: option.splits)
  from a b c d g show ?thesis by blast
qed

lemma demo_reference:
  "generate_response (demo_env (demo_llm ext) urls) demo_agent msg tr =
     (Inr (Some ''A reference.'', False),
      tr @ [Completion ''m1'' (first_messages demo_agent msg) None])"
proof -
  have n: "\<not> contains ''A reference.'' search_marker"
    by (simp add: contains_def search_marker_def)
  have m: "model demo_agent = ''m1''"
    by (simp add: demo_agent_def)
  show ?thesis
    using n
    by (simp add: generate_response_unfold demo_env_sel demo_llm_def m search_round_no_marker
        reserialize_def demo_json_loads_def tides_text_def dquote_def)
qed

lemma demo_gather:
  "gather (demo_env (demo_llm ext) urls) (reference_agents demo_state) msg tr =
     (Inr [(Some ''A reference.'', False)],
      tr @ [Completion ''m1'' (first_messages demo_agent msg) None])"
  by (simp add: demo_state_def demo_reference)

lemma demo_fan_in: "fan_in [(Some ''A reference.'', False)] = ([''A reference.''], False)"
  by (simp add: fan_in_def fan_in_step_def error_prefix_def)

lemma demo_expansion_not_json:
  "generate_response (demo_env (demo_llm ''not json'') urls) (query_extension_agent demo_state)
     msg tr =
     (Inr (Some ''not json'', False),
      tr @ [Completion ''m0'' (first_messages (query_extension_agent demo_state) msg) None])"
proof -
  have n: "\<not> contains ''not json'' search_marker"
    by (simp add: contains_def search_marker_def)
  have m: "model (query_extension_agent demo_state) = ''m0''"
    by (simp add: query_extension_agent_def demo_state_def)
  show ?thesis
    using n
    by (simp add: generate_response_unfold demo_env_sel demo_llm_def m search_round_no_marker
        reserialize_def demo_json_loads_def tides_text_def dquote_def)
qed

lemma demo_loads_tides: "demo_json_loads tides_text = Some tides_json"
  by (simp add: demo_json_loads_def tides_text_def dquote_def)

lemma demo_validate_tides:
  "demo_model_validate [(''queries'', tides_json)] =
     Some \<lparr>queries = [\<lparr>query = ''tides'', type = ''related''\<rparr>]\<rparr>"
  by (simp add: demo_model_validate_def tides_json_def)

theorem C6_expansion_parse_policy_witness:
  "json_loads (demo_env (demo_llm ''not json'') []) tides_text
     = Some (JArray [JObject [(''query'', JString ''tides''), (''type'', JString ''related'')]])
   \<and> parse_extension (demo_env (demo_llm ''not json'') []) (Some tides_text)
     = \<lparr>queries = [\<lparr>query = ''tides'', type = ''related''\<rparr>]\<rparr>
   \<and> json_loads (demo_env (demo_llm ''not json'') []) ''{}'' = Some (JObject [])
   \<and> parse_extension (demo_env (demo_llm ''not json'') []) (Some ''{}'') = \<lparr>queries = []\<rparr>
   \<and> isl (parse_extension_try (demo_env (demo_llm ''not json'') []) (Some ''not json''))
   \<and> isl (parse_extension_try (demo_env (demo_llm ''not json'') []) (Some ''7''))
   \<and> isl (parse_extension_try (demo_env (demo_llm ''not json'') []) (Some ''[7]''))
   \<and> parse_extension (demo_env (demo_llm ''not json'') []) (Some ''not json'') = \<lparr>queries = []\<rparr>
   \<and> fst (fan_in [(Some ''A reference.'', False)]) \<noteq> []
   \<and> expand_and_synthesize (demo_env (demo_llm ''not json'') [])
        (snd (update_memory demo_state (Some ''hi'') Roles_user)) ''hi'' False []
      = (Inr (Some ''The answer.'', False),
         demo_state\<lparr>agent_event_memory :=
                      [(Roles_user, Some ''hi''), (Roles_assistant, Some ''The answer.'')],
                    rag := [Some ''hi'', Some ''The answer.'']\<rparr>,
         [Completion ''m0''
            (first_messages (query_extension_agent demo_state)
               ''Consider the following query: hi'') None,
          Retrieve ''hi'' 1,
          Completion ''m0''
            (final_messages demo_state
               (context_header @ ''hi\<newline>\<newline>'' @ question_footer @ ''hi''))
            (Some (0.6, 2048))])
   \<and> \<not> isl (fst (after_gather (demo_env (demo_llm ''not json'') [])
                   (snd (update_memory demo_state (Some ''hi'') Roles_user)) ''hi''
                   [(Some ''A reference.'', False)] []))"
proof -
  let ?e = "demo_env (demo_llm ''not json'') []"
  let ?st = "snd (update_memory demo_state (Some ''hi'') Roles_user)"
  have q: "query_extension_agent ?st = query_extension_agent demo_state"
    by (simp add: query_extension_agent_def update_memory_text)
  have h1: "json_loads ?e tides_text
     = Some (JArray [JObject [(''query'', JString ''tides''), (''type'', JString ''related'')]])"
    using demo_loads_tides by (simp add: demo_env_sel tides_json_def)
  have h2: "json_loads ?e ''{}'' = Some (JObject [])"
    by (simp add: demo_env_sel demo_json_loads_def)
  have v1: "model_validate ?e [(''queries'',
       JArray [JObject [(''query'', JString ''tides''), (''type'', JString ''related'')]])]
     = Some \<lparr>queries = [\<lparr>query = ''tides'', type = ''related''\<rparr>]\<rparr>"
    using demo_validate_tides by (simp add: demo_env_sel tides_json_def)
  have v2: "model_validate ?e [] = Some \<lparr>queries = []\<rparr>"
    by (simp add: demo_env_sel demo_model_validate_def)
  have h3: "isl (parse_extension_try ?e (Some ''not json''))"
    by (simp add: parse_extension_try_def demo_env_sel demo_json_loads_def tides_text_def dquote_def)
  have h4: "isl (parse_extension_try ?e (Some ''7''))"
    by (simp add: parse_extension_try_def demo_env_sel demo_json_loads_def)
  have h5: "isl (parse_extension_try ?e (Some ''[7]''))"
    by (simp add: parse_extension_try_def demo_env_sel demo_json_loads_def
        demo_model_validate_def)
  have h6: "fst (fan_in [(Some ''A reference.'', False)]) \<noteq> []"
    by (simp add: demo_fan_in)
  have x1: "generate_response ?e (query_extension_agent ?st)
              (''Consider the following query: '' @ ''hi'') []
            = (Inr (Some ''not json'', False),
               [Completion ''m0''
                  (first_messages (query_extension_agent demo_state)
                     ''Consider the following query: hi'') None])"
    using demo_expansion_not_json [of "[]" "''Consider the following query: hi''" "[]"]
    by (simp add: q)
  have w: "web_search_enabled ?st" "rag ?st = [Some ''hi'']" "turn_k ?st = 1"
          "temperature ?st = 0.6" "max_tokens ?st = 2048" "model (final_agent ?st) = ''m0''"
          "final_messages ?st p = final_messages demo_state p"
          "agent_event_memory ?st = [(Roles_user, Some ''hi'')]" for p
    by (simp_all add: update_memory_text demo_state_def turn_k_def final_messages_def)
  have u: "snd (update_memory ?st (Some ''The answer.'') Roles_assistant) =
           demo_state\<lparr>agent_event_memory :=
                      [(Roles_user, Some ''hi''), (Roles_assistant, Some ''The answer.'')],
                    rag := [Some ''hi'', Some ''The answer.'']\<rparr>"
    by (simp add: update_memory_text demo_state_def)
  have r: "retrieve_documents ?e [Some ''hi''] ''hi'' 1 = [''hi'']"
    by (simp add: demo_env_sel demo_retrieve_def)
  have l: "generate_with_references ?e t ''m0'' ms (Some o1) = Some ''The answer.''" for t ms o1
    by (simp add: demo_env_sel demo_llm_def)
  have x2: "generate_response ?e (query_extension_agent ?st)
              (''Consider the following query: '' @ ''hi'')
              (if web_search_enabled ?st then [] @ [WebSearch ''hi''] else [])
            = (Inr (Some ''not json'', False),
               [WebSearch ''hi'',
                Completion ''m0''
                  (first_messages (query_extension_agent demo_state)
                     ''Consider the following query: hi'') None])"
    using demo_expansion_not_json [of "[]" "''Consider the following query: hi''" "[WebSearch ''hi'']"]
    by (simp add: q w)
  note A = C6_expansion_parse_policy [where e = ?e and s = tides_text
      and l = "[JObject [(''query'', JString ''tides''), (''type'', JString ''related'')]]"
      and d = "[]" and out = "Some ''not json''" and st = ?st and input_message = "''hi''"
      and tr = "[]" and f = False and flag = False
      and ?tr1.0 = "[Completion ''m0'' (first_messages (query_extension_agent demo_state)
                     ''Consider the following query: hi'') None]"
      and results = "[(Some ''A reference.'', False)]"]
  note B = C6_expansion_parse_policy [where e = ?e and s = "''{}''" and d = "[]"
      and l = "[]" and out = "Some ''not json''" and st = ?st and input_message = "''hi''"
      and tr = "[]" and f = False and flag = False
      and ?tr1.0 = "[WebSearch ''hi'',
                Completion ''m0''
                  (first_messages (query_extension_agent demo_state)
                     ''Consider the following query: hi'') None]"
      and results = "[(Some ''A reference.'', False)]"]
  have p1: "parse_extension ?e (Some tides_text)
     = \<lparr>queries = [\<lparr>query = ''tides'', type = ''related''\<rparr>]\<rparr>"
    using A h1 v1 by simp
  have p2: "parse_extension ?e (Some ''{}'') = \<lparr>queries = []\<rparr>"
    using B h2 v2 by simp
  have p3: "parse_extension ?e (Some ''not json'') = \<lparr>queries = []\<rparr>"
    using A h3 by blast
  have p4: "expand_and_synthesize ?e ?st ''hi'' False []
      = (Inr (Some ''The answer.'', False),
         demo_state\<lparr>agent_event_memory :=
                      [(Roles_user, Some ''hi''), (Roles_assistant, Some ''The answer.'')],
                    rag := [Some ''hi'', Some ''The answer.'']\<rparr>,
         [Completion ''m0''
            (first_messages (query_extension_agent demo_state)
               ''Consider the following query: hi'') None,
          Retrieve ''hi'' 1,
          Completion ''m0''
            (final_messages demo_state
               (context_header @ ''hi\<newline>\<newline>'' @ question_footer @ ''hi''))
            (Some (0.6, 2048))])"
    using A x1 h3
    by (simp add: w r l u append_documents_def Let_def)
  have p5: "\<not> isl (fst (after_gather ?e ?st ''hi'' [(Some ''A reference.'', False)] []))"
    using B h6 x2 by (simp add: w l)
  show ?thesis
    using h1 p1 h2 p2 h3 h4 h5 p3 h6 p4 p5 by blast
qed

section \<open>The input of the synthesis call\<close>

lemma append_documents_prefix: "\<exists>x. append_documents prompt documents = prompt @ x"
  using foldl_append_concat [of "\<lambda>doc. doc @ ''\<newline>\<newline>''" prompt documents]
  by (simp add: append_documents_def)

lemma append_new_documents_prefix: "\<exists>x. append_new_documents prompt documents = prompt @ x"
proof (induction documents arbitrary: prompt)
  case Nil
  then show ?case by (simp add: append_new_documents_def)
next
  case (Cons d ds)
  show ?case
  proof (cases "contains prompt d")
    case True
    then show ?thesis
      using Cons [of prompt] by (simp add: append_new_documents_def)
  next
    case False
    obtain x where "append_new_documents (prompt @ d @ ''\<newline>\<newline>'') ds
                      = (prompt @ d @ ''\<newline>\<newline>'') @ x"
      using Cons [of "prompt @ d @ ''\<newline>\<newline>''"] by blast
    with False show ?thesis
      by (simp add: append_new_documents_def)
  qed
qed

lemma expansion_prompt:
  "\<exists>x. fst (foldl (expansion_step e st) (prompt, tr) qs) = prompt @ x
       \<and> fst (foldl (expansion_step e st) (prompt, tr') qs) = prompt @ x"
proof (induction qs arbitrary: prompt tr tr')
  case Nil
  then show ?case by simp
next
  case (Cons q qs)
  let ?p = "if retrieve_documents e (rag st) (query q) (turn_k st) \<noteq> []
            then append_new_documents prompt (retrieve_documents e (rag st) (query q) (turn_k st))
            else prompt"
  have s: "expansion_step e st (prompt, t) q = (?p, t @ [Retrieve (query q) (turn_k st)])" for t
    by (simp add: expansion_step_def rag_retrieve_def)
  have "\<exists>y. ?p = prompt @ y"
    using append_new_documents_prefix
      [of prompt "retrieve_documents e (rag st) (query q) (turn_k st)"]
    by (cases "retrieve_documents e (rag st) (query q) (turn_k st) = []") simp_all
  then obtain y where y: "?p = prompt @ y" ..
  obtain x where x:
    "fst (foldl (expansion_step e st) (?p, tr @ [Retrieve (query q) (turn_k st)]) qs) = ?p @ x"
    "fst (foldl (expansion_step e st) (?p, tr' @ [Retrieve (query q) (turn_k st)]) qs) = ?p @ x"
    using Cons [of ?p "tr @ [Retrieve (query q) (turn_k st)]" "tr' @ [Retrieve (query q) (turn_k st)]"]
    by blast
  have "fst (foldl (expansion_step e st) (prompt, tr) (q # qs)) = prompt @ (y @ x)"
    using x(1) y by (simp only: foldl_Cons s) simp
  moreover have "fst (foldl (expansion_step e st) (prompt, tr') (q # qs)) = prompt @ (y @ x)"
    using x(2) y by (simp only: foldl_Cons s) simp
  ultimately show ?case by blast
qed

lemma build_prompt_shape:
  "\<exists>ctx. fst (build_prompt e st input_message qs tr)
            = context_header @ ctx @ question_footer @ input_message
         \<and> fst (build_prompt e st input_message qs tr')
            = context_header @ ctx @ question_footer @ input_message"
proof -
  let ?docs = "retrieve_documents e (rag st) input_message (turn_k st)"
  let ?p1 = "if ?docs \<noteq> [] then append_documents context_header ?docs
             else context_header @ no_documents_notice"
  have "\<exists>y. ?p1 = context_header @ y"
    using append_documents_prefix [of context_header ?docs]
    by (cases "?docs = []") simp_all
  then obtain y where y: "?p1 = context_header @ y" ..
  obtain x where x:
    "fst (foldl (expansion_step e st) (?p1, tr @ [Retrieve input_message (turn_k st)]) (queries qs))
       = ?p1 @ x"
    "fst (foldl (expansion_step e st) (?p1, tr' @ [Retrieve input_message (turn_k st)]) (queries qs))
       = ?p1 @ x"
    using expansion_prompt [of e st ?p1 "tr @ [Retrieve input_message (turn_k st)]" "queries qs"
        "tr' @ [Retrieve input_message (turn_k st)]"]
    by blast
  have b: "fst (build_prompt e st input_message qs t) =
        fst (foldl (expansion_step e st) (?p1, t @ [Retrieve input_message (turn_k st)]) (queries qs))
          @ question_footer @ input_message" for t
    by (simp add: build_prompt_def rag_retrieve_def Let_def split: prod.splits)
  have "fst (build_prompt e st input_message qs tr)
          = context_header @ (y @ x) @ question_footer @ input_message"
    using x(1) y by (simp only: b) simp
  moreover have "fst (build_prompt e st input_message qs tr')
          = context_header @ (y @ x) @ question_footer @ input_message"
    using x(2) y by (simp only: b) simp
  ultimately show ?thesis by blast
qed

lemma query_extension_agent_update_memory:
  "query_extension_agent (snd (update_memory st msg r)) = query_extension_agent st"
  by (cases msg) (simp_all add: query_extension_agent_def update_memory_text update_memory_none)

text \<open>
  Claim C2. In a turn where the reference agents return and at least one reference
  survives, and the expansion agent returns, the last call of get_response is the
  synthesis call. Its message list has exactly two messages: the system prompt of the
  synthesis agent, and a user message that is the context header, the retrieval
  context, the question footer and the original input. That user message is the prompt
  that build_prompt computes from the index, the counter, the input and the expansion
  queries alone, whatever calls came before: the list with the references and the
  web search results, built at lines 281 to 302, is not what is sent.
\<close>

theorem C2_final_call_messages:
  assumes "gather e (reference_agents st) input_message tr = (Inr results, tr1)"
      and "fst (fan_in results) \<noteq> []"
      and "generate_response e (query_extension_agent st)
             (''Consider the following query: '' @ input_message)
             (if web_search_enabled st then tr1 @ [WebSearch input_message] else tr1)
           = (Inr (out, f), tr2)"
  shows "\<exists>ctx.
           snd (snd (get_response e st input_message tr)) =
             (tr2 @ Retrieve input_message (turn_k st)
                      # map (\<lambda>q. Retrieve (query q) (turn_k st)) (queries (parse_extension e out)))
               @ [Completion (model (final_agent st))
                    [\<lparr>role = ''system'', content = system_prompt (final_agent st)\<rparr>,
                     \<lparr>role = ''user'',
                      content = context_header @ ctx @ question_footer @ input_message\<rparr>]
                    (Some (temperature st, max_tokens st))]
           \<and> context_header @ ctx @ question_footer @ input_message =
               fst (build_prompt e (snd (update_memory st (Some input_message) Roles_user))
                      input_message (parse_extension e out) [])"
proof -
  let ?st = "snd (update_memory st (Some input_message) Roles_user)"
  let ?qs = "parse_extension e out"
  have w: "web_search_enabled ?st = web_search_enabled st" "turn_k ?st = turn_k st"
      "final_agent ?st = final_agent st" "temperature ?st = temperature st"
      "max_tokens ?st = max_tokens st"
    by (simp_all add: update_memory_text turn_k_def)
  have x: "generate_response e (query_extension_agent ?st)
             (''Consider the following query: '' @ input_message)
             (if web_search_enabled ?st then tr1 @ [WebSearch input_message] else tr1)
           = (Inr (out, f), tr2)"
    using assms(3) by (simp only: query_extension_agent_update_memory w)
  obtain fl where a: "get_response e st input_message tr =
      synthesize e ?st (fst (build_prompt e ?st input_message ?qs tr2)) fl
        (snd (build_prompt e ?st input_message ?qs tr2))"
    using get_response_gathered [OF assms(1)] after_gather_survivors [OF assms(2)]
      expand_and_synthesize_returns [OF x]
    by simp
  obtain ctx where c:
    "fst (build_prompt e ?st input_message ?qs tr2)
       = context_header @ ctx @ question_footer @ input_message"
    "fst (build_prompt e ?st input_message ?qs [])
       = context_header @ ctx @ question_footer @ input_message"
    using build_prompt_shape [of e ?st input_message ?qs tr2 "[]"] by blast
  have "snd (snd (get_response e st input_message tr)) =
             (tr2 @ Retrieve input_message (turn_k st)
                      # map (\<lambda>q. Retrieve (query q) (turn_k st)) (queries ?qs))
               @ [Completion (model (final_agent st))
                    [\<lparr>role = ''system'', content = system_prompt (final_agent st)\<rparr>,
                     \<lparr>role = ''user'',
                      content = context_header @ ctx @ question_footer @ input_message\<rparr>]
                    (Some (temperature st, max_tokens st))]"
    by (simp add: a synthesize_trace build_prompt_events c(1) final_messages_def w)
  with c(2) show ?thesis by auto
qed


lemma demo_expansion_tides:
  "generate_response (demo_env (demo_llm tides_text) urls) (query_extension_agent demo_state)
     msg tr =
     (Inr (Some tides_text, False),
      tr @ [Completion ''m0'' (first_messages (query_extension_agent demo_state) msg) None])"
proof -
  have n: "\<not> contains tides_text search_marker"
    by (simp add: contains_def search_marker_def tides_text_def dquote_def)
  have m: "model (query_extension_agent demo_state) = ''m0''"
    by (simp add: query_extension_agent_def demo_state_def)
  have d: "demo_json_dumps tides_json = tides_text"
    by (simp add: demo_json_dumps_def tides_json_def)
  have l: "demo_llm tides_text t ''m0'' ms None = Some tides_text" for t ms
    by (simp add: demo_llm_def)
  show ?thesis
    using n
    by (simp add: generate_response_unfold m l search_round_no_marker reserialize_def
        demo_env_sel demo_loads_tides d Let_def)
qed

lemma demo_parse_tides:
  "parse_extension (demo_env llm urls) (Some tides_text)
     = \<lparr>queries = [\<lparr>query = ''tides'', type = ''related''\<rparr>]\<rparr>"
  using demo_validate_tides
  by (simp add: parse_extension_def parse_extension_try_def demo_env_sel demo_loads_tides
      tides_json_def)

lemma demo_build_prompt:
  "fst (build_prompt (demo_env llm urls) (snd (update_memory demo_state (Some ''hi'') Roles_user))
          ''hi'' \<lparr>queries = [\<lparr>query = ''tides'', type = ''related''\<rparr>]\<rparr> [])
     = context_header @ ''hi\<newline>\<newline>'' @ question_footer @ ''hi''"
proof -
  have r: "rag (snd (update_memory demo_state (Some ''hi'') Roles_user)) = [Some ''hi'']"
          "turn_k (snd (update_memory demo_state (Some ''hi'') Roles_user)) = 1"
    by (simp_all add: update_memory_text demo_state_def turn_k_def)
  have d: "retrieve_documents (demo_env llm urls) [Some ''hi''] q 1 = [''hi'']" for q
    by (simp add: demo_env_sel demo_retrieve_def)
  have c: "contains (context_header @ ''hi\<newline>\<newline>'') ''hi''"
    by (simp add: contains_def context_header_def)
  show ?thesis
    using c
    by (simp add: build_prompt_def rag_retrieve_def expansion_step_def r d Let_def
        append_documents_def append_new_documents_def)
qed

theorem C2_final_call_messages_witness:
  "gather (demo_env (demo_llm tides_text) [''http://a'']) (reference_agents demo_state) ''hi'' []
     = (Inr [(Some ''A reference.'', False)],
        [Completion ''m1'' (first_messages demo_agent ''hi'') None])
   \<and> fst (fan_in [(Some ''A reference.'', False)]) = [''A reference.'']
   \<and> generate_response (demo_env (demo_llm tides_text) [''http://a''])
        (query_extension_agent demo_state) (''Consider the following query: '' @ ''hi'')
        (if web_search_enabled demo_state
         then [Completion ''m1'' (first_messages demo_agent ''hi'') None] @ [WebSearch ''hi'']
         else [Completion ''m1'' (first_messages demo_agent ''hi'') None])
     = (Inr (Some tides_text, False),
        [Completion ''m1'' (first_messages demo_agent ''hi'') None,
         WebSearch ''hi'',
         Completion ''m0''
           (first_messages (query_extension_agent demo_state) ''Consider the following query: hi'')
           None])
   \<and> snd (snd (get_response (demo_env (demo_llm tides_text) [''http://a'']) demo_state ''hi'' []))
     = [Completion ''m1'' (first_messages demo_agent ''hi'') None,
        WebSearch ''hi'',
        Completion ''m0''
          (first_messages (query_extension_agent demo_state) ''Consider the following query: hi'')
          None,
        Retrieve ''hi'' 1,
        Retrieve ''tides'' 1,
        Completion ''m0''
          [\<lparr>role = ''system'', content = ''Synthesize.''\<rparr>,
           \<lparr>role = ''user'',
            content = context_header @ ''hi\<newline>\<newline>'' @ question_footer @ ''hi''\<rparr>]
          (Some (0.6, 2048))]"
proof -
  let ?e = "demo_env (demo_llm tides_text) [''http://a'']"
  let ?c1 = "Completion ''m1'' (first_messages demo_agent ''hi'') None"
  have h1: "gather ?e (reference_agents demo_state) ''hi'' [] = (Inr [(Some ''A reference.'', False)], [?c1])"
    using demo_gather [of tides_text "[''http://a'']" "''hi''" "[]"] by simp
  have h2: "fst (fan_in [(Some ''A reference.'', False)]) \<noteq> []"
    by (simp add: demo_fan_in)
  have w: "web_search_enabled demo_state" "turn_k demo_state = 1"
      "model (final_agent demo_state) = ''m0''" "system_prompt (final_agent demo_state) = ''Synthesize.''"
      "temperature demo_state = 0.6" "max_tokens demo_state = 2048"
    by (simp_all add: demo_state_def turn_k_def)
  have h3: "generate_response ?e (query_extension_agent demo_state)
        (''Consider the following query: '' @ ''hi'')
        (if web_search_enabled demo_state then [?c1] @ [WebSearch ''hi''] else [?c1])
     = (Inr (Some tides_text, False),
        [?c1, WebSearch ''hi'',
         Completion ''m0''
           (first_messages (query_extension_agent demo_state) ''Consider the following query: hi'')
           None])"
    using demo_expansion_tides [of "[''http://a'']" "''Consider the following query: hi''"
        "[?c1, WebSearch ''hi'']"]
    by (simp add: w)
  obtain ctx where c:
    "snd (snd (get_response ?e demo_state ''hi'' [])) =
       ([?c1, WebSearch ''hi'',
         Completion ''m0''
           (first_messages (query_extension_agent demo_state) ''Consider the following query: hi'')
           None]
         @ Retrieve ''hi'' (turn_k demo_state)
             # map (\<lambda>q. Retrieve (query q) (turn_k demo_state))
                 (queries (parse_extension ?e (Some tides_text))))
         @ [Completion (model (final_agent demo_state))
              [\<lparr>role = ''system'', content = system_prompt (final_agent demo_state)\<rparr>,
               \<lparr>role = ''user'', content = context_header @ ctx @ question_footer @ ''hi''\<rparr>]
              (Some (temperature demo_state, max_tokens demo_state))]"
    "context_header @ ctx @ question_footer @ ''hi'' =
       fst (build_prompt ?e (snd (update_memory demo_state (Some ''hi'') Roles_user)) ''hi''
              (parse_extension ?e (Some tides_text)) [])"
    using C2_final_call_messages [OF h1 h2 h3] by blast
  have p: "context_header @ ctx @ question_footer @ ''hi''
             = context_header @ ''hi\<newline>\<newline>'' @ question_footer @ ''hi''"
    using c(2) by (simp only: demo_parse_tides demo_build_prompt)
  have t: "snd (snd (get_response ?e demo_state ''hi'' []))
     = [?c1, WebSearch ''hi'',
        Completion ''m0''
          (first_messages (query_extension_agent demo_state) ''Consider the following query: hi'')
          None,
        Retrieve ''hi'' 1,
        Retrieve ''tides'' 1,
        Completion ''m0''
          [\<lparr>role = ''system'', content = ''Synthesize.''\<rparr>,
           \<lparr>role = ''user'',
            content = context_header @ ''hi\<newline>\<newline>'' @ question_footer @ ''hi''\<rparr>]
          (Some (0.6, 2048))]"
    unfolding c(1) p by (simp add: w demo_parse_tides)
  show ?thesis
    using h1 h3 t by (simp add: demo_fan_in)
qed

end
